theory Spec2Isabelle
  imports Main "HOL-Library.Word"
begin

unbundle bit_operations_syntax

section \<open>The CAIF socket header: include/linux/caif/caif_socket.h\<close>

text \<open>
  The header declares five enumerations and one structure, \<open>struct sockaddr_caif\<close>.
  Each enumeration is a datatype of its enumerators together with the function giving
  every enumerator its C value. The structure is a record whose union member is kept as
  the bytes it occupies, so that the arms of the union share storage as they do in C.
\<close>

subsection \<open>Scalar types\<close>

type_synonym u8 = "8 word"
  \<comment> \<open>\<open>__u8\<close>; also one \<open>char\<close> of a name buffer\<close>
type_synonym u32 = "32 word"
  \<comment> \<open>\<open>__u32\<close>\<close>
type_synonym sa_family_t = "16 word"
  \<comment> \<open>\<open>sa_family_t\<close> of the socket headers: an unsigned short\<close>

subsection \<open>Enumerations\<close>

text \<open>\<open>enum caif_link_selector\<close>: no explicit values, so the enumerators count from 0.\<close>

datatype caif_link_selector = CAIF_LINK_HIGH_BANDW | CAIF_LINK_LOW_LATENCY

fun caif_link_selector_val :: "caif_link_selector \<Rightarrow> int" where
  "caif_link_selector_val CAIF_LINK_HIGH_BANDW = 0"
| "caif_link_selector_val CAIF_LINK_LOW_LATENCY = 1"

text \<open>
  The option \<open>CAIFSO_LINK_SELECT\<close> "is of type \<open>__u32\<close>": the enumerator, if any, that a
  value of that type stands for.
\<close>

definition caif_link_selector_of :: "u32 \<Rightarrow> caif_link_selector option" where
  "caif_link_selector_of v =
     find (\<lambda>s. word_of_int (caif_link_selector_val s) = v)
       [CAIF_LINK_HIGH_BANDW, CAIF_LINK_LOW_LATENCY]"

text \<open>\<open>enum caif_channel_priority\<close>, with the values the header writes in hexadecimal.\<close>

datatype caif_channel_priority =
  CAIF_PRIO_MIN | CAIF_PRIO_LOW | CAIF_PRIO_NORMAL | CAIF_PRIO_HIGH | CAIF_PRIO_MAX

fun caif_channel_priority_val :: "caif_channel_priority \<Rightarrow> int" where
  "caif_channel_priority_val CAIF_PRIO_MIN = 0x01"
| "caif_channel_priority_val CAIF_PRIO_LOW = 0x04"
| "caif_channel_priority_val CAIF_PRIO_NORMAL = 0x0f"
| "caif_channel_priority_val CAIF_PRIO_HIGH = 0x14"
| "caif_channel_priority_val CAIF_PRIO_MAX = 0x1F"

text \<open>
  \<open>enum caif_protocol_type\<close>: five channel types counted from 0, closed by the
  enumerator \<open>_CAIFPROTO_MAX\<close>, which the header also names \<open>CAIFPROTO_MAX\<close>.
\<close>

datatype caif_protocol_type =
  CAIFPROTO_AT | CAIFPROTO_DATAGRAM | CAIFPROTO_DATAGRAM_LOOP | CAIFPROTO_UTIL
| CAIFPROTO_RFM | CAIFPROTO_MAX

fun caif_protocol_type_val :: "caif_protocol_type \<Rightarrow> int" where
  "caif_protocol_type_val CAIFPROTO_AT = 0"
| "caif_protocol_type_val CAIFPROTO_DATAGRAM = 1"
| "caif_protocol_type_val CAIFPROTO_DATAGRAM_LOOP = 2"
| "caif_protocol_type_val CAIFPROTO_UTIL = 3"
| "caif_protocol_type_val CAIFPROTO_RFM = 4"
| "caif_protocol_type_val CAIFPROTO_MAX = 5"

text \<open>\<open>enum caif_at_type\<close>: a single enumerator.\<close>

datatype caif_at_type = CAIF_ATTYPE_PLAIN

fun caif_at_type_val :: "caif_at_type \<Rightarrow> int" where
  "caif_at_type_val CAIF_ATTYPE_PLAIN = 2"

text \<open>\<open>enum caif_socket_opts\<close>.\<close>

datatype caif_socket_opts = CAIFSO_LINK_SELECT | CAIFSO_REQ_PARAM | CAIFSO_RSP_PARAM

fun caif_socket_opts_val :: "caif_socket_opts \<Rightarrow> int" where
  "caif_socket_opts_val CAIFSO_LINK_SELECT = 127"
| "caif_socket_opts_val CAIFSO_REQ_PARAM = 128"
| "caif_socket_opts_val CAIFSO_RSP_PARAM = 129"

subsection \<open>Bytes of the union\<close>

text \<open>
  The byte order of a \<open>__u32\<close> in memory is fixed by the target the kernel is built
  for, not by the header, so it is a parameter of every access to a 4-byte member.
\<close>

datatype byte_order = Little_endian | Big_endian

definition u32_of_bytes :: "byte_order \<Rightarrow> u8 list \<Rightarrow> u32" where
  "u32_of_bytes e bs =
     foldr (\<lambda>b w. ucast b OR push_bit 8 w)
       (case e of Little_endian \<Rightarrow> bs | Big_endian \<Rightarrow> rev bs) 0"

definition bytes_of_u32 :: "byte_order \<Rightarrow> u32 \<Rightarrow> u8 list" where
  "bytes_of_u32 e w =
     (let le = map (\<lambda>i. ucast (drop_bit (8 * i) w)) [0..<4]
      in case e of Little_endian \<Rightarrow> le | Big_endian \<Rightarrow> rev le)"

text \<open>The byte of a \<open>__u32\<close> that lies at its lowest address.\<close>

definition first_byte :: "byte_order \<Rightarrow> u32 \<Rightarrow> u8" where
  "first_byte e w = (case e of Little_endian \<Rightarrow> ucast w | Big_endian \<Rightarrow> ucast (drop_bit 24 w))"

text \<open>
  \<open>char service[16]\<close> and \<open>char volume[16]\<close>: a value of the array type is a
  sequence of exactly 16 bytes.
\<close>

typedef char16 = "{bs :: u8 list. length bs = 16}"
  by (rule exI [of _ "replicate 16 0"]) simp

text \<open>
  The storage of the union \<open>u\<close>. Its arms take 1 byte (\<open>at\<close>), 16 bytes (\<open>util\<close>),
  4 bytes (\<open>dgm\<close>) and 4 + 16 bytes (\<open>rfm\<close>); every arm starts at offset 0, and the
  union is as large as its largest arm: 20 bytes.
\<close>

typedef caif_u = "{bs :: u8 list. length bs = 20}"
  by (rule exI [of _ "replicate 20 0"]) simp

text \<open>
  Reading \<open>n\<close> bytes at offset \<open>off\<close>, and overwriting the bytes at an offset. The
  member accesses below are the only users, each within the 20 bytes.
\<close>

definition u_load :: "nat \<Rightarrow> nat \<Rightarrow> caif_u \<Rightarrow> u8 list" where
  "u_load off n m = take n (drop off (Rep_caif_u m))"

definition u_store :: "nat \<Rightarrow> u8 list \<Rightarrow> caif_u \<Rightarrow> caif_u" where
  "u_store off bs m =
     Abs_caif_u (take off (Rep_caif_u m) @ bs @ drop (off + length bs) (Rep_caif_u m))"

subsection \<open>The structure\<close>

record sockaddr_caif =
  family :: sa_family_t
  u :: caif_u

text \<open>
  The arms of the union and the channel type each one "applies" to, as the comments
  beside the arms say; \<open>dgm\<close> serves both datagram types.
\<close>

datatype caif_arm = U_at | U_util | U_dgm | U_rfm

fun caif_arm_of :: "caif_protocol_type \<Rightarrow> caif_arm option" where
  "caif_arm_of CAIFPROTO_AT = Some U_at"
| "caif_arm_of CAIFPROTO_UTIL = Some U_util"
| "caif_arm_of CAIFPROTO_DATAGRAM = Some U_dgm"
| "caif_arm_of CAIFPROTO_DATAGRAM_LOOP = Some U_dgm"
| "caif_arm_of CAIFPROTO_RFM = Some U_rfm"
| "caif_arm_of CAIFPROTO_MAX = None"

text \<open>
  Member access. \<open>u_at_type a\<close> is the C expression \<open>a.u.at.type\<close>, and
  \<open>set_u_at_type t a\<close> is the structure after \<open>a.u.at.type = t\<close>; likewise for the
  other members. An array member is read and written as a whole.
\<close>

definition u_at_type :: "sockaddr_caif \<Rightarrow> u8" where
  "u_at_type a = hd (u_load 0 1 (u a))"

definition set_u_at_type :: "u8 \<Rightarrow> sockaddr_caif \<Rightarrow> sockaddr_caif" where
  "set_u_at_type t a = a\<lparr>u := u_store 0 [t] (u a)\<rparr>"

definition u_util_service :: "sockaddr_caif \<Rightarrow> char16" where
  "u_util_service a = Abs_char16 (u_load 0 16 (u a))"

definition set_u_util_service :: "char16 \<Rightarrow> sockaddr_caif \<Rightarrow> sockaddr_caif" where
  "set_u_util_service s a = a\<lparr>u := u_store 0 (Rep_char16 s) (u a)\<rparr>"

definition u_dgm_connection_id :: "byte_order \<Rightarrow> sockaddr_caif \<Rightarrow> u32" where
  "u_dgm_connection_id e a = u32_of_bytes e (u_load 0 4 (u a))"

definition set_u_dgm_connection_id :: "byte_order \<Rightarrow> u32 \<Rightarrow> sockaddr_caif \<Rightarrow> sockaddr_caif" where
  "set_u_dgm_connection_id e c a = a\<lparr>u := u_store 0 (bytes_of_u32 e c) (u a)\<rparr>"

definition u_dgm_nsapi :: "sockaddr_caif \<Rightarrow> u8" where
  "u_dgm_nsapi a = hd (u_load 0 1 (u a))"

definition set_u_dgm_nsapi :: "u8 \<Rightarrow> sockaddr_caif \<Rightarrow> sockaddr_caif" where
  "set_u_dgm_nsapi n a = a\<lparr>u := u_store 0 [n] (u a)\<rparr>"

definition u_rfm_connection_id :: "byte_order \<Rightarrow> sockaddr_caif \<Rightarrow> u32" where
  "u_rfm_connection_id e a = u32_of_bytes e (u_load 0 4 (u a))"

definition set_u_rfm_connection_id :: "byte_order \<Rightarrow> u32 \<Rightarrow> sockaddr_caif \<Rightarrow> sockaddr_caif" where
  "set_u_rfm_connection_id e c a = a\<lparr>u := u_store 0 (bytes_of_u32 e c) (u a)\<rparr>"

definition u_rfm_volume :: "sockaddr_caif \<Rightarrow> char16" where
  "u_rfm_volume a = Abs_char16 (u_load 4 16 (u a))"

definition set_u_rfm_volume :: "char16 \<Rightarrow> sockaddr_caif \<Rightarrow> sockaddr_caif" where
  "set_u_rfm_volume v a = a\<lparr>u := u_store 4 (Rep_char16 v) (u a)\<rparr>"

text \<open>A structure with every byte zero, as \<open>memset\<close> leaves it before the members are set.\<close>

definition sockaddr_caif_zeroed :: sockaddr_caif where
  "sockaddr_caif_zeroed = \<lparr>family = 0, u = Abs_caif_u (replicate 20 0)\<rparr>"

section \<open>Operations on addresses and options\<close>

text \<open>
  The header declares data only. The code that builds an address for a channel type,
  checks a priority or stores an option value is in the channel layer, outside this
  header; the operations of this section follow the specification's description of them.
  Every failure is a named error.
\<close>

datatype caif_error =
  Unknown_protocol | Oversized_name | Oversized_buffer | Priority_out_of_range
| Out_of_lifecycle

text \<open>
  Modelled from the spec: the tagged address. The structure of the header has no member
  for the channel type (\<open>family\<close> holds the address family), so the address carries its
  discriminator beside the structure, as the number of the enumerator.
\<close>

record caif_address =
  discriminator :: int
  sockaddr :: sockaddr_caif

text \<open>
  Modelled from the spec: constructing an address tagged with a protocol variant, which
  the header has no function for. A variant is a channel type that selects an arm of the
  union; the closing enumerator selects none and is no variant.
\<close>

definition caif_address :: "caif_protocol_type \<Rightarrow> sockaddr_caif \<Rightarrow> caif_error + caif_address" where
  "caif_address p a =
     (if caif_arm_of p = None then Inl Unknown_protocol
      else Inr \<lparr>discriminator = caif_protocol_type_val p, sockaddr = a\<rparr>)"

text \<open>
  Modelled from the spec: reading the discriminator back, which the header has no
  function for. A number that is no variant's is an "unknown protocol variant
  discriminator".
\<close>

definition caif_address_variant :: "caif_address \<Rightarrow> caif_error + caif_protocol_type" where
  "caif_address_variant x =
     (case find (\<lambda>p. caif_protocol_type_val p = discriminator x)
             [CAIFPROTO_AT, CAIFPROTO_DATAGRAM, CAIFPROTO_DATAGRAM_LOOP, CAIFPROTO_UTIL,
              CAIFPROTO_RFM] of
        None \<Rightarrow> Inl Unknown_protocol
      | Some p \<Rightarrow> Inr p)"

text \<open>
  Modelled from the spec: constructing a UTIL address from a service name, which the
  header has no function for. The name is at most 16 bytes; a longer one fails with a
  length error and is never truncated. The bytes of the name are written from the start
  of \<open>service\<close>; bytes of the member beyond a shorter name stay as they are in the
  structure being filled.
\<close>

definition caif_util_address :: "u8 list \<Rightarrow> sockaddr_caif \<Rightarrow> caif_error + caif_address" where
  "caif_util_address name a =
     (if 16 < length name then Inl Oversized_name
      else caif_address CAIFPROTO_UTIL
             (set_u_util_service
                (Abs_char16 (name @ drop (length name) (Rep_char16 (u_util_service a)))) a))"

text \<open>
  Modelled from the spec: the check of a channel priority, which the header has no
  function for. The header's comment gives the range: "any value between CAIF_PRIO_MIN
  and CAIF_PRIO_MAX could be used"; a value outside it is rejected, not clamped.
\<close>

definition caif_check_priority :: "int \<Rightarrow> caif_error + int" where
  "caif_check_priority p =
     (if caif_channel_priority_val CAIF_PRIO_MIN \<le> p \<and> p \<le> caif_channel_priority_val CAIF_PRIO_MAX
      then Inr p else Inl Priority_out_of_range)"

text \<open>
  Modelled from the spec: the parameters of a utility channel kept by a socket, and the
  calls that set and get them, none of which is in the header. The header's comments
  give the bound ("maximum 256 bytes") and the order: the request parameters are set
  before connecting, the response parameters are valid after a successful connect.
\<close>

definition CAIF_PARAM_MAX :: nat where
  "CAIF_PARAM_MAX = 256"

record caif_sock =
  connected :: bool
  req_param :: "u8 list"
  rsp_param :: "u8 list"

definition caif_sock_init :: caif_sock where
  "caif_sock_init = \<lparr>connected = False, req_param = [], rsp_param = []\<rparr>"

text \<open>
  Modelled from the spec: \<open>setsockopt\<close> of \<open>CAIFSO_REQ_PARAM\<close>, which is not in the
  header.
\<close>

definition caif_set_req_param :: "u8 list \<Rightarrow> caif_sock \<Rightarrow> caif_error + caif_sock" where
  "caif_set_req_param buf s =
     (if connected s then Inl Out_of_lifecycle
      else if CAIF_PARAM_MAX < length buf then Inl Oversized_buffer
      else Inr (s\<lparr>req_param := buf\<rparr>))"

text \<open>
  Modelled from the spec: a connect, which is not in the header; \<open>rsp\<close> is the response
  blob the modem answers with. The response parameters are "up to 256 bytes": a longer
  blob is an oversized buffer and fails the connect; otherwise the socket is connected
  and keeps the blob as its response parameters.
\<close>

definition caif_connect :: "u8 list \<Rightarrow> caif_sock \<Rightarrow> caif_error + caif_sock" where
  "caif_connect rsp s =
     (if connected s then Inl Out_of_lifecycle
      else if CAIF_PARAM_MAX < length rsp then Inl Oversized_buffer
      else Inr (s\<lparr>connected := True, rsp_param := rsp\<rparr>))"

text \<open>
  Modelled from the spec: \<open>getsockopt\<close> of \<open>CAIFSO_RSP_PARAM\<close>, which is not in the
  header. Reading the response before a connect is an error.
\<close>

definition caif_get_rsp_param :: "caif_sock \<Rightarrow> caif_error + u8 list" where
  "caif_get_rsp_param s = (if connected s then Inr (rsp_param s) else Inl Out_of_lifecycle)"

text \<open>
  Modelled from the spec: a sequence of calls on one socket. A call that fails leaves
  the socket as it was.
\<close>

datatype caif_op = Set_req_param "u8 list" | Connect "u8 list"

fun caif_call :: "caif_sock \<Rightarrow> caif_op \<Rightarrow> caif_sock" where
  "caif_call s (Set_req_param buf) =
     (case caif_set_req_param buf s of Inl _ \<Rightarrow> s | Inr s' \<Rightarrow> s')"
| "caif_call s (Connect rsp) =
     (case caif_connect rsp s of Inl _ \<Rightarrow> s | Inr s' \<Rightarrow> s')"

definition caif_calls :: "caif_op list \<Rightarrow> caif_sock" where
  "caif_calls cs = foldl caif_call caif_sock_init cs"

section \<open>Bytes and words\<close>

lemma upt_0_4: "[0..<4] = [0, 1, 2, 3]"
  by (simp add: upt_rec)

lemma length_bytes_of_u32 [simp]: "length (bytes_of_u32 e w) = 4"
  by (cases e) (simp_all add: bytes_of_u32_def)

lemma four_bytes:
  assumes "length (bs :: 'a list) = 4"
  obtains b0 b1 b2 b3 where "bs = [b0, b1, b2, b3]"
proof -
  from assms obtain b0 r0 where 0: "bs = b0 # r0" "length r0 = 3"
    by (cases bs) auto
  then obtain b1 r1 where 1: "r0 = b1 # r1" "length r1 = 2"
    by (cases r0) auto
  then obtain b2 r2 where 2: "r1 = b2 # r2" "length r2 = 1"
    by (cases r1) auto
  then obtain b3 where 3: "r2 = [b3]"
    by (cases r2) auto
  from 0 1 2 3 that show ?thesis by simp
qed

lemma le_u32_of_bytes:
  fixes w :: u32
  shows "ucast (ucast w :: u8) OR push_bit 8 (ucast (ucast (drop_bit 8 w) :: u8))
         OR push_bit 16 (ucast (ucast (drop_bit 16 w) :: u8))
         OR push_bit 24 (ucast (ucast (drop_bit 24 w) :: u8)) = w"
proof (rule bit_word_eqI)
  fix n assume "n < LENGTH(32)"
  then consider "n < 8" | "8 \<le> n" "n < 16" | "16 \<le> n" "n < 24" | "24 \<le> n" "n < 32"
    by fastforce
  then show "bit (ucast (ucast w :: u8) OR push_bit 8 (ucast (ucast (drop_bit 8 w) :: u8))
         OR push_bit 16 (ucast (ucast (drop_bit 16 w) :: u8))
         OR push_bit 24 (ucast (ucast (drop_bit 24 w) :: u8)) :: u32) n = bit w n"
    by cases (auto simp: bit_simps)
qed

lemma u32_of_bytes_of_u32: "u32_of_bytes e (bytes_of_u32 e w) = w"
  by (cases e) (simp_all add: u32_of_bytes_def bytes_of_u32_def upt_0_4 le_u32_of_bytes)

lemma bytes_of_u32_of_bytes:
  assumes "length bs = 4"
  shows "bytes_of_u32 e (u32_of_bytes e bs) = bs"
proof -
  from assms obtain b0 b1 b2 b3 where bs: "bs = [b0, b1, b2, b3]"
    by (rule four_bytes)
  show ?thesis
    unfolding bs
    by (cases e; simp add: u32_of_bytes_def bytes_of_u32_def upt_0_4;
        intro conjI; rule bit_word_eqI; auto simp: bit_simps dest: bit_imp_le_length)
qed

lemma hd_bytes_of_u32: "hd (bytes_of_u32 e w) = first_byte e w"
  by (cases e) (simp_all add: bytes_of_u32_def first_byte_def upt_0_4)

section \<open>Storage of the union\<close>

lemma length_Rep_caif_u [simp]: "length (Rep_caif_u m) = 20"
  using Rep_caif_u [of m] by simp

lemma length_Rep_char16 [simp]: "length (Rep_char16 s) = 16"
  using Rep_char16 [of s] by simp

lemma Rep_u_store:
  "off + length bs \<le> 20 \<Longrightarrow>
   Rep_caif_u (u_store off bs m)
     = take off (Rep_caif_u m) @ bs @ drop (off + length bs) (Rep_caif_u m)"
  by (simp add: u_store_def Abs_caif_u_inverse)

lemma u_load_u_store_same:
  "off + length bs \<le> 20 \<Longrightarrow> u_load off (length bs) (u_store off bs m) = bs"
  by (simp add: u_load_def Rep_u_store)

lemma u_load_u_store_before:
  "off' + n \<le> off \<Longrightarrow> off + length bs \<le> 20 \<Longrightarrow>
   u_load off' n (u_store off bs m) = u_load off' n m"
  by (simp add: u_load_def Rep_u_store take_drop)

lemma u_load_u_store_after:
  "off + length bs \<le> off' \<Longrightarrow> off + length bs \<le> 20 \<Longrightarrow>
   u_load off' n (u_store off bs m) = u_load off' n m"
  by (simp add: u_load_def Rep_u_store)

lemma length_u_load: "off + n \<le> 20 \<Longrightarrow> length (u_load off n m) = n"
  by (simp add: u_load_def)

section \<open>Member access\<close>

text \<open>A member reads back what was assigned to it.\<close>

lemma u_at_type_set: "u_at_type (set_u_at_type t a) = t"
  using u_load_u_store_same [of 0 "[t]" "u a"]
  by (simp add: u_at_type_def set_u_at_type_def)

lemma u_util_service_set: "u_util_service (set_u_util_service s a) = s"
  using u_load_u_store_same [of 0 "Rep_char16 s" "u a"]
  by (simp add: u_util_service_def set_u_util_service_def Rep_char16_inverse)

lemma u_dgm_connection_id_set: "u_dgm_connection_id e (set_u_dgm_connection_id e c a) = c"
  using u_load_u_store_same [of 0 "bytes_of_u32 e c" "u a"]
  by (simp add: u_dgm_connection_id_def set_u_dgm_connection_id_def u32_of_bytes_of_u32)

lemma u_dgm_nsapi_set: "u_dgm_nsapi (set_u_dgm_nsapi n a) = n"
  using u_load_u_store_same [of 0 "[n]" "u a"]
  by (simp add: u_dgm_nsapi_def set_u_dgm_nsapi_def)

lemma u_rfm_connection_id_set: "u_rfm_connection_id e (set_u_rfm_connection_id e c a) = c"
  using u_load_u_store_same [of 0 "bytes_of_u32 e c" "u a"]
  by (simp add: u_rfm_connection_id_def set_u_rfm_connection_id_def u32_of_bytes_of_u32)

lemma u_rfm_volume_set: "u_rfm_volume (set_u_rfm_volume s a) = s"
  using u_load_u_store_same [of 4 "Rep_char16 s" "u a"]
  by (simp add: u_rfm_volume_def set_u_rfm_volume_def Rep_char16_inverse)

text \<open>The two members of \<open>rfm\<close> lie side by side: assigning one leaves the other.\<close>

lemma u_rfm_connection_id_set_volume:
  "u_rfm_connection_id e (set_u_rfm_volume s a) = u_rfm_connection_id e a"
  using u_load_u_store_before [of 0 4 4 "Rep_char16 s" "u a"]
  by (simp add: u_rfm_connection_id_def set_u_rfm_volume_def)

lemma u_rfm_volume_set_connection_id:
  "u_rfm_volume (set_u_rfm_connection_id e c a) = u_rfm_volume a"
  using u_load_u_store_after [of 0 "bytes_of_u32 e c" 4 16 "u a"]
  by (simp add: u_rfm_volume_def set_u_rfm_connection_id_def)

text \<open>The two members of \<open>dgm\<close> lie on top of each other.\<close>

lemma hd_u_load_1: "hd (u_load 0 1 m) = hd (u_load 0 4 m)"
  by (simp add: u_load_def hd_take)

lemma u_dgm_nsapi_first_byte: "u_dgm_nsapi a = first_byte e (u_dgm_connection_id e a)"
proof -
  have "length (u_load 0 4 (u a)) = 4"
    by (simp add: length_u_load)
  then have "bytes_of_u32 e (u32_of_bytes e (u_load 0 4 (u a))) = u_load 0 4 (u a)"
    by (rule bytes_of_u32_of_bytes)
  then have "hd (u_load 0 4 (u a)) = first_byte e (u32_of_bytes e (u_load 0 4 (u a)))"
    using hd_bytes_of_u32 [of e "u32_of_bytes e (u_load 0 4 (u a))"] by simp
  then show ?thesis
    unfolding u_dgm_nsapi_def u_dgm_connection_id_def hd_u_load_1 .
qed

lemma u_store_hd_again:
  assumes "length bs = 4"
  shows "u_store 0 [hd bs] (u_store 0 bs m) = u_store 0 bs m"
proof -
  from assms obtain b0 b1 b2 b3 where bs: "bs = [b0, b1, b2, b3]"
    by (rule four_bytes)
  have "Rep_caif_u (u_store 0 [hd bs] (u_store 0 bs m)) = Rep_caif_u (u_store 0 bs m)"
    by (simp add: Rep_u_store bs)
  then show ?thesis
    by (simp only: Rep_caif_u_inject)
qed

lemma nsapi_after_connection_id:
  "(u_dgm_connection_id e (set_u_dgm_nsapi n (set_u_dgm_connection_id e c a)) = c)
   = (first_byte e c = n)"
proof
  assume "u_dgm_connection_id e (set_u_dgm_nsapi n (set_u_dgm_connection_id e c a)) = c"
  then have "first_byte e c = u_dgm_nsapi (set_u_dgm_nsapi n (set_u_dgm_connection_id e c a))"
    by (simp add: u_dgm_nsapi_first_byte [of _ e])
  then show "first_byte e c = n"
    by (simp add: u_dgm_nsapi_set)
next
  assume n: "first_byte e c = n"
  have "set_u_dgm_nsapi (hd (bytes_of_u32 e c)) (set_u_dgm_connection_id e c a)
        = set_u_dgm_connection_id e c a"
    using u_store_hd_again [of "bytes_of_u32 e c" "u a"]
    by (simp add: set_u_dgm_nsapi_def set_u_dgm_connection_id_def)
  then show "u_dgm_connection_id e (set_u_dgm_nsapi n (set_u_dgm_connection_id e c a)) = c"
    using n by (simp add: hd_bytes_of_u32 u_dgm_connection_id_set)
qed

text \<open>
  The bytes at work: the connection identifier \<open>0x01020304\<close> in a zeroed structure, in
  both byte orders, the NSAPI read from it, and the identifier after an NSAPI of
  \<open>0xFF\<close> is assigned over it.
\<close>

lemma Rep_zeroed: "Rep_caif_u (u sockaddr_caif_zeroed) = replicate 20 0"
  by (simp add: sockaddr_caif_zeroed_def Abs_caif_u_inverse)

lemma dgm_bytes_example:
  "Rep_caif_u (u (set_u_dgm_connection_id Little_endian 0x01020304 sockaddr_caif_zeroed))
     = [4, 3, 2, 1] @ replicate 16 0
   \<and> Rep_caif_u (u (set_u_dgm_connection_id Big_endian 0x01020304 sockaddr_caif_zeroed))
     = [1, 2, 3, 4] @ replicate 16 0
   \<and> u_dgm_nsapi (set_u_dgm_connection_id Little_endian 0x01020304 sockaddr_caif_zeroed) = 4
   \<and> u_dgm_nsapi (set_u_dgm_connection_id Big_endian 0x01020304 sockaddr_caif_zeroed) = 1
   \<and> u_dgm_connection_id Little_endian
        (set_u_dgm_nsapi 0xFF (set_u_dgm_connection_id Little_endian 0x01020304 sockaddr_caif_zeroed))
     = 0x010203FF"
proof -
  have le: "bytes_of_u32 Little_endian 0x01020304 = [4, 3, 2, 1]"
    by (simp add: bytes_of_u32_def upt_0_4 drop_bit_eq_div)
  have be: "bytes_of_u32 Big_endian 0x01020304 = [1, 2, 3, 4]"
    by (simp add: bytes_of_u32_def upt_0_4 drop_bit_eq_div)
  have ff: "u32_of_bytes Little_endian [0xFF, 3, 2, 1] = 0x010203FF"
    by (simp add: u32_of_bytes_def push_bit_eq_mult)
  show ?thesis
    by (simp add: set_u_dgm_connection_id_def set_u_dgm_nsapi_def u_dgm_nsapi_def
        u_dgm_connection_id_def u_load_def Rep_u_store Rep_zeroed le be ff)
qed

text \<open>
  The storage does not say which member of \<open>dgm\<close> was assigned: the bytes left by an
  assignment to \<open>nsapi\<close> are those an assignment to \<open>connection_id\<close> leaves, and
  the other way round.
\<close>

lemma u_store_u_load_back:
  "u_store 0 (u_load 0 4 (u_store 0 [n] m)) m = u_store 0 [n] m"
proof -
  have "Rep_caif_u (u_store 0 (u_load 0 4 (u_store 0 [n] m)) m) = Rep_caif_u (u_store 0 [n] m)"
  proof -
    have l: "length (u_load 0 4 (u_store 0 [n] m)) = 4"
      by (simp add: length_u_load)
    have "take 3 (drop 1 (Rep_caif_u m)) @ drop 4 (Rep_caif_u m) = drop 1 (Rep_caif_u m)"
      using append_take_drop_id [of 3 "drop 1 (Rep_caif_u m)"] by simp
    then show ?thesis
      using l by (simp add: Rep_u_store) (simp add: u_load_def Rep_u_store)
  qed
  then show ?thesis by (simp only: Rep_caif_u_inject)
qed

lemma nsapi_as_connection_id:
  "set_u_dgm_connection_id e (u_dgm_connection_id e (set_u_dgm_nsapi n a)) a = set_u_dgm_nsapi n a"
proof -
  have "length (u_load 0 4 (u_store 0 [n] (u a))) = 4"
    by (simp add: length_u_load)
  then have "bytes_of_u32 e (u32_of_bytes e (u_load 0 4 (u_store 0 [n] (u a))))
             = u_load 0 4 (u_store 0 [n] (u a))"
    by (rule bytes_of_u32_of_bytes)
  then show ?thesis
    by (simp add: set_u_dgm_connection_id_def u_dgm_connection_id_def set_u_dgm_nsapi_def
        u_store_u_load_back)
qed

lemma connection_id_as_nsapi:
  "set_u_dgm_nsapi (first_byte e c) (set_u_dgm_connection_id e c a) = set_u_dgm_connection_id e c a"
  using u_store_hd_again [of "bytes_of_u32 e c" "u a"]
  by (simp add: set_u_dgm_nsapi_def set_u_dgm_connection_id_def hd_bytes_of_u32)

lemma u32_of_4_bytes:
  "u32_of_bytes Little_endian [4, 0, 0, 0] = 4 \<and> u32_of_bytes Big_endian [4, 0, 0, 0] = 0x04000000"
  by (simp add: u32_of_bytes_def push_bit_eq_mult)

section \<open>Addresses, priorities and options\<close>

lemma caif_address_variant_of_val:
  "caif_arm_of p \<noteq> None \<Longrightarrow>
   caif_address_variant \<lparr>discriminator = caif_protocol_type_val p, sockaddr = a\<rparr> = Inr p"
  by (cases p) (simp_all add: caif_address_variant_def)

lemma caif_address_variant_Inr:
  "caif_address_variant y = Inr q \<Longrightarrow> q \<noteq> CAIFPROTO_MAX \<and> caif_protocol_type_val q = discriminator y"
  by (auto simp: caif_address_variant_def split: option.splits if_splits)

lemma caif_util_address_accept:
  assumes "length name \<le> 16"
  shows "\<exists>x. caif_util_address name a = Inr x
            \<and> caif_address_variant x = Inr CAIFPROTO_UTIL
            \<and> take (length name) (Rep_char16 (u_util_service (sockaddr x))) = name"
proof -
  let ?s = "name @ drop (length name) (Rep_char16 (u_util_service a))"
  let ?x = "\<lparr>discriminator = caif_protocol_type_val CAIFPROTO_UTIL,
             sockaddr = set_u_util_service (Abs_char16 ?s) a\<rparr>"
  from assms have len: "length ?s = 16" by simp
  then have rep: "Rep_char16 (Abs_char16 ?s) = ?s"
    by (simp add: Abs_char16_inverse)
  from assms have "caif_util_address name a = Inr ?x"
    by (simp add: caif_util_address_def caif_address_def)
  moreover have "caif_address_variant ?x = Inr CAIFPROTO_UTIL"
    by (rule caif_address_variant_of_val) simp
  moreover have "take (length name) (Rep_char16 (u_util_service (sockaddr ?x))) = name"
    by (simp add: u_util_service_set rep del: append_eq_append_conv)
  ultimately show ?thesis by blast
qed

text \<open>
  No sequence of calls makes a socket hold more than \<open>CAIF_PARAM_MAX\<close> bytes of request
  or response parameters: each call keeps the bound, so a fold of calls does.
\<close>

lemma caif_call_bound:
  "length (req_param s) \<le> CAIF_PARAM_MAX \<and> length (rsp_param s) \<le> CAIF_PARAM_MAX \<Longrightarrow>
   length (req_param (caif_call s c)) \<le> CAIF_PARAM_MAX
   \<and> length (rsp_param (caif_call s c)) \<le> CAIF_PARAM_MAX"
  by (cases c) (auto simp: caif_set_req_param_def caif_connect_def)

lemma foldl_caif_call_bound:
  "length (req_param s) \<le> CAIF_PARAM_MAX \<and> length (rsp_param s) \<le> CAIF_PARAM_MAX \<Longrightarrow>
   length (req_param (foldl caif_call s cs)) \<le> CAIF_PARAM_MAX
   \<and> length (rsp_param (foldl caif_call s cs)) \<le> CAIF_PARAM_MAX"
proof (induction cs arbitrary: s)
  case Nil
  then show ?case by simp
next
  case (Cons c cs)
  from caif_call_bound [OF Cons.prems, of c] show ?case
    by (simp add: Cons.IH)
qed

lemma caif_calls_bound:
  "length (req_param (caif_calls cs)) \<le> 256 \<and> length (rsp_param (caif_calls cs)) \<le> 256"
  using foldl_caif_call_bound [of caif_sock_init cs]
  by (simp add: caif_calls_def caif_sock_init_def CAIF_PARAM_MAX_def)

lemma caif_link_selector_val_range:
  "(\<exists>s. caif_link_selector_val s = i) = (i = 0 \<or> i = 1)"
proof
  assume "\<exists>s. caif_link_selector_val s = i"
  then obtain s where "caif_link_selector_val s = i" ..
  then show "i = 0 \<or> i = 1" by (cases s) auto
next
  assume "i = 0 \<or> i = 1"
  then show "\<exists>s. caif_link_selector_val s = i"
  proof
    assume "i = 0"
    then have "caif_link_selector_val CAIF_LINK_HIGH_BANDW = i" by simp
    then show ?thesis ..
  next
    assume "i = 1"
    then have "caif_link_selector_val CAIF_LINK_LOW_LATENCY = i" by simp
    then show ?thesis ..
  qed
qed

lemma u32_of_zero_bytes: "u32_of_bytes e [0, 0, 0, 0] = 0"
  by (cases e) (simp_all add: u32_of_bytes_def)

section \<open>The claims\<close>

text \<open>
  Claim C1. For each of the five protocol variants AT, DATAGRAM, DATAGRAM_LOOP, UTIL and
  RFM, constructing an address tagged with the variant succeeds, keeps the structure, and
  reading the discriminator back yields the same variant. These five are the only
  variants: a discriminator read back is always one of them, only they can tag an
  address, they are exactly the channel types with an arm in the union, and exactly the
  enumerators below the closing enumerator \<open>CAIFPROTO_MAX\<close>.
\<close>

theorem caif_address_variant_roundtrip:
  "(p \<in> {CAIFPROTO_AT, CAIFPROTO_DATAGRAM, CAIFPROTO_DATAGRAM_LOOP, CAIFPROTO_UTIL, CAIFPROTO_RFM}
      \<longrightarrow> (\<exists>x. caif_address p a = Inr x \<and> sockaddr x = a \<and> caif_address_variant x = Inr p))
   \<and> (caif_address_variant y = Inr q
      \<longrightarrow> q \<in> {CAIFPROTO_AT, CAIFPROTO_DATAGRAM, CAIFPROTO_DATAGRAM_LOOP, CAIFPROTO_UTIL,
               CAIFPROTO_RFM})
   \<and> ((\<exists>x. caif_address p a = Inr x)
       = (p \<in> {CAIFPROTO_AT, CAIFPROTO_DATAGRAM, CAIFPROTO_DATAGRAM_LOOP, CAIFPROTO_UTIL,
                CAIFPROTO_RFM}))
   \<and> ((caif_arm_of p \<noteq> None)
       = (p \<in> {CAIFPROTO_AT, CAIFPROTO_DATAGRAM, CAIFPROTO_DATAGRAM_LOOP, CAIFPROTO_UTIL,
                CAIFPROTO_RFM}))
   \<and> ((caif_protocol_type_val p < caif_protocol_type_val CAIFPROTO_MAX)
       = (p \<in> {CAIFPROTO_AT, CAIFPROTO_DATAGRAM, CAIFPROTO_DATAGRAM_LOOP, CAIFPROTO_UTIL,
                CAIFPROTO_RFM}))"
proof (intro conjI impI)
  assume "p \<in> {CAIFPROTO_AT, CAIFPROTO_DATAGRAM, CAIFPROTO_DATAGRAM_LOOP, CAIFPROTO_UTIL, CAIFPROTO_RFM}"
  then have arm: "caif_arm_of p \<noteq> None" by auto
  then show "\<exists>x. caif_address p a = Inr x \<and> sockaddr x = a \<and> caif_address_variant x = Inr p"
    by (simp add: caif_address_def caif_address_variant_of_val)
next
  assume "caif_address_variant y = Inr q"
  then have "q \<noteq> CAIFPROTO_MAX" by (simp add: caif_address_variant_Inr)
  then show "q \<in> {CAIFPROTO_AT, CAIFPROTO_DATAGRAM, CAIFPROTO_DATAGRAM_LOOP, CAIFPROTO_UTIL, CAIFPROTO_RFM}"
    by (cases q) simp_all
next
  show "(\<exists>x. caif_address p a = Inr x)
       = (p \<in> {CAIFPROTO_AT, CAIFPROTO_DATAGRAM, CAIFPROTO_DATAGRAM_LOOP, CAIFPROTO_UTIL, CAIFPROTO_RFM})"
    by (cases p) (simp_all add: caif_address_def)
next
  show "(caif_arm_of p \<noteq> None)
       = (p \<in> {CAIFPROTO_AT, CAIFPROTO_DATAGRAM, CAIFPROTO_DATAGRAM_LOOP, CAIFPROTO_UTIL, CAIFPROTO_RFM})"
    by (cases p) simp_all
next
  show "(caif_protocol_type_val p < caif_protocol_type_val CAIFPROTO_MAX)
       = (p \<in> {CAIFPROTO_AT, CAIFPROTO_DATAGRAM, CAIFPROTO_DATAGRAM_LOOP, CAIFPROTO_UTIL, CAIFPROTO_RFM})"
    by (cases p) simp_all
qed

theorem caif_address_variant_roundtrip_witness:
  "CAIFPROTO_RFM \<in> {CAIFPROTO_AT, CAIFPROTO_DATAGRAM, CAIFPROTO_DATAGRAM_LOOP, CAIFPROTO_UTIL, CAIFPROTO_RFM}
   \<and> (\<exists>x. caif_address CAIFPROTO_RFM sockaddr_caif_zeroed = Inr x
          \<and> sockaddr x = sockaddr_caif_zeroed \<and> caif_address_variant x = Inr CAIFPROTO_RFM)
   \<and> caif_address_variant \<lparr>discriminator = 3, sockaddr = sockaddr_caif_zeroed\<rparr> = Inr CAIFPROTO_UTIL
   \<and> CAIFPROTO_UTIL \<in> {CAIFPROTO_AT, CAIFPROTO_DATAGRAM, CAIFPROTO_DATAGRAM_LOOP, CAIFPROTO_UTIL, CAIFPROTO_RFM}"
  using caif_address_variant_roundtrip
    [of CAIFPROTO_RFM sockaddr_caif_zeroed
        "\<lparr>discriminator = 3, sockaddr = sockaddr_caif_zeroed\<rparr>" CAIFPROTO_UTIL]
  by (simp add: caif_address_variant_def)

text \<open>
  Claim C2, as the header has it. In the \<open>dgm\<close> arm the 4-byte connection identifier
  and the 1-byte NSAPI occupy the same storage: in every address the NSAPI is the byte of
  the connection identifier at the lowest address. Each member reads back what was
  assigned to it, and assigning one overwrites the other: after a connection identifier
  is assigned the NSAPI is its first byte, and an NSAPI assigned afterwards leaves the
  connection identifier as it was only if it equals that byte. The two are never
  independent fields: no address has connection identifier 0 and NSAPI 1. But both
  members stay readable and the address does not record which of them was assigned: an
  address made by assigning an NSAPI is the one made by assigning the connection
  identifier read from it, and assigning the first byte of the connection identifier as
  NSAPI changes nothing.
\<close>

theorem u_dgm_overlap:
  "u_dgm_nsapi a = first_byte e (u_dgm_connection_id e a)
   \<and> u_dgm_connection_id e (set_u_dgm_connection_id e c a) = c
   \<and> u_dgm_nsapi (set_u_dgm_nsapi n a) = n
   \<and> u_dgm_nsapi (set_u_dgm_connection_id e c a) = first_byte e c
   \<and> ((u_dgm_connection_id e (set_u_dgm_nsapi n (set_u_dgm_connection_id e c a)) = c)
       = (first_byte e c = n))
   \<and> (\<nexists>b. u_dgm_connection_id e b = 0 \<and> u_dgm_nsapi b = 1)
   \<and> set_u_dgm_connection_id e (u_dgm_connection_id e (set_u_dgm_nsapi n a)) a
       = set_u_dgm_nsapi n a
   \<and> set_u_dgm_nsapi (first_byte e c) (set_u_dgm_connection_id e c a)
       = set_u_dgm_connection_id e c a"
proof (intro conjI)
  show "u_dgm_nsapi a = first_byte e (u_dgm_connection_id e a)"
    by (rule u_dgm_nsapi_first_byte)
  show "u_dgm_connection_id e (set_u_dgm_connection_id e c a) = c"
    by (rule u_dgm_connection_id_set)
  show "u_dgm_nsapi (set_u_dgm_nsapi n a) = n"
    by (rule u_dgm_nsapi_set)
  show "u_dgm_nsapi (set_u_dgm_connection_id e c a) = first_byte e c"
    by (simp add: u_dgm_nsapi_first_byte [of _ e] u_dgm_connection_id_set)
  show "(u_dgm_connection_id e (set_u_dgm_nsapi n (set_u_dgm_connection_id e c a)) = c)
       = (first_byte e c = n)"
    by (rule nsapi_after_connection_id)
  show "\<nexists>b. u_dgm_connection_id e b = 0 \<and> u_dgm_nsapi b = 1"
  proof
    assume "\<exists>b. u_dgm_connection_id e b = 0 \<and> u_dgm_nsapi b = 1"
    then obtain b where b: "u_dgm_connection_id e b = 0" "u_dgm_nsapi b = 1" by blast
    have "u_dgm_nsapi b = first_byte e (u_dgm_connection_id e b)"
      by (rule u_dgm_nsapi_first_byte)
    with b have "first_byte e 0 = 1" by simp
    then show False by (cases e) (simp_all add: first_byte_def)
  qed
  show "set_u_dgm_connection_id e (u_dgm_connection_id e (set_u_dgm_nsapi n a)) a
       = set_u_dgm_nsapi n a"
    by (rule nsapi_as_connection_id)
  show "set_u_dgm_nsapi (first_byte e c) (set_u_dgm_connection_id e c a)
       = set_u_dgm_connection_id e c a"
    by (rule connection_id_as_nsapi)
qed

text \<open>
  Claim C2 says that exactly one of the two interpretations is active in a constructed
  address and that the other is not exposed. The union has no such marker: the zeroed
  structure with NSAPI 4 assigned is the very structure with connection identifier 4
  assigned (little-endian; \<open>0x04000000\<close> big-endian), and on it both members read 4.
\<close>

theorem u_dgm_active_counterexample:
  "set_u_dgm_nsapi 4 sockaddr_caif_zeroed
     = set_u_dgm_connection_id Little_endian 4 sockaddr_caif_zeroed
   \<and> set_u_dgm_nsapi 4 sockaddr_caif_zeroed
     = set_u_dgm_connection_id Big_endian 0x04000000 sockaddr_caif_zeroed
   \<and> u_dgm_nsapi (set_u_dgm_connection_id Little_endian 4 sockaddr_caif_zeroed) = 4
   \<and> u_dgm_connection_id Little_endian (set_u_dgm_nsapi 4 sockaddr_caif_zeroed) = 4"
proof -
  have bytes: "Rep_caif_u (u (set_u_dgm_nsapi 4 sockaddr_caif_zeroed)) = [4, 0, 0, 0] @ replicate 16 0"
    by (simp add: set_u_dgm_nsapi_def Rep_u_store Rep_zeroed numeral_eq_Suc)
  then have "u_load 0 4 (u (set_u_dgm_nsapi 4 sockaddr_caif_zeroed)) = [4, 0, 0, 0]"
    by (simp add: u_load_def)
  then have le: "u_dgm_connection_id Little_endian (set_u_dgm_nsapi 4 sockaddr_caif_zeroed) = 4"
    and be: "u_dgm_connection_id Big_endian (set_u_dgm_nsapi 4 sockaddr_caif_zeroed) = 0x04000000"
    by (simp_all add: u_dgm_connection_id_def u32_of_4_bytes)
  from nsapi_as_connection_id [of Little_endian 4 sockaddr_caif_zeroed] le
  have 1: "set_u_dgm_nsapi 4 sockaddr_caif_zeroed
     = set_u_dgm_connection_id Little_endian 4 sockaddr_caif_zeroed" by simp
  from nsapi_as_connection_id [of Big_endian 4 sockaddr_caif_zeroed] be
  have 2: "set_u_dgm_nsapi 4 sockaddr_caif_zeroed
     = set_u_dgm_connection_id Big_endian 0x04000000 sockaddr_caif_zeroed" by simp
  have 3: "u_dgm_nsapi (set_u_dgm_connection_id Little_endian 4 sockaddr_caif_zeroed) = 4"
    unfolding 1 [symmetric] by (rule u_dgm_nsapi_set)
  from 1 2 3 le show ?thesis by blast
qed

text \<open>
  Claim C3. The service name of the UTIL variant is a field of exactly 16 bytes. An
  address constructed from a name of exactly 16 bytes is a UTIL address whose service
  name reads back unchanged; constructing from a name of 17 bytes (or of any length above
  16) is rejected with the error \<open>Oversized_name\<close>. A shorter name is accepted and
  reads back as the leading bytes of the field.
\<close>

theorem caif_util_address_name:
  "(length name = 16 \<longrightarrow>
      (\<exists>x. caif_util_address name a = Inr x
          \<and> caif_address_variant x = Inr CAIFPROTO_UTIL
          \<and> Rep_char16 (u_util_service (sockaddr x)) = name))
   \<and> (length name = 17 \<longrightarrow> caif_util_address name a = Inl Oversized_name)
   \<and> (16 < length name \<longrightarrow> caif_util_address name a = Inl Oversized_name)
   \<and> (length name \<le> 16 \<longrightarrow>
      (\<exists>x. caif_util_address name a = Inr x
          \<and> take (length name) (Rep_char16 (u_util_service (sockaddr x))) = name))
   \<and> length (Rep_char16 (u_util_service a)) = 16"
proof (intro conjI impI)
  assume len: "length name = 16"
  then have "length name \<le> 16" by simp
  from caif_util_address_accept [OF this, of a] obtain x where
    x: "caif_util_address name a = Inr x" "caif_address_variant x = Inr CAIFPROTO_UTIL"
       "take (length name) (Rep_char16 (u_util_service (sockaddr x))) = name"
    by blast
  from x(3) len have "Rep_char16 (u_util_service (sockaddr x)) = name" by simp
  with x show "\<exists>x. caif_util_address name a = Inr x
          \<and> caif_address_variant x = Inr CAIFPROTO_UTIL
          \<and> Rep_char16 (u_util_service (sockaddr x)) = name" by blast
next
  assume "length name = 17"
  then show "caif_util_address name a = Inl Oversized_name"
    by (simp add: caif_util_address_def)
next
  assume "16 < length name"
  then show "caif_util_address name a = Inl Oversized_name"
    by (simp add: caif_util_address_def)
next
  assume "length name \<le> 16"
  from caif_util_address_accept [OF this, of a]
  show "\<exists>x. caif_util_address name a = Inr x
          \<and> take (length name) (Rep_char16 (u_util_service (sockaddr x))) = name"
    by blast
next
  show "length (Rep_char16 (u_util_service a)) = 16" by simp
qed

theorem caif_util_address_name_witness:
  "length (replicate 16 (0x41 :: u8)) = 16
   \<and> (\<exists>x. caif_util_address (replicate 16 0x41) sockaddr_caif_zeroed = Inr x
          \<and> caif_address_variant x = Inr CAIFPROTO_UTIL
          \<and> Rep_char16 (u_util_service (sockaddr x)) = replicate 16 0x41)
   \<and> length (replicate 17 (0x41 :: u8)) = 17
   \<and> 16 < length (replicate 17 (0x41 :: u8))
   \<and> caif_util_address (replicate 17 0x41) sockaddr_caif_zeroed = Inl Oversized_name
   \<and> length [0x41 :: u8, 0x54] \<le> 16
   \<and> (\<exists>x. caif_util_address [0x41, 0x54] sockaddr_caif_zeroed = Inr x
          \<and> take (length [0x41 :: u8, 0x54]) (Rep_char16 (u_util_service (sockaddr x))) = [0x41, 0x54])"
  using caif_util_address_name [of "replicate 16 0x41" sockaddr_caif_zeroed]
    caif_util_address_name [of "replicate 17 0x41" sockaddr_caif_zeroed]
    caif_util_address_name [of "[0x41, 0x54]" sockaddr_caif_zeroed]
  by simp

text \<open>
  Claim C4. In the RFM arm a volume name of exactly 16 bytes reads back unchanged after
  it is assigned, and so does every connection identifier: every 32-bit value, that is
  every number from 0 to \<open>2^32 - 1\<close>, in either byte order. The two members do not
  overlap: each survives an assignment to the other.
\<close>

theorem u_rfm_roundtrip:
  "(length v = 16 \<longrightarrow> Rep_char16 (u_rfm_volume (set_u_rfm_volume (Abs_char16 v) a)) = v)
   \<and> u_rfm_volume (set_u_rfm_volume s a) = s
   \<and> u_rfm_connection_id e (set_u_rfm_connection_id e c a) = c
   \<and> (k < 2 ^ 32 \<longrightarrow>
        unat (u_rfm_connection_id e (set_u_rfm_connection_id e (of_nat k) a)) = k)
   \<and> u_rfm_connection_id e (set_u_rfm_volume s (set_u_rfm_connection_id e c a)) = c
   \<and> u_rfm_volume (set_u_rfm_connection_id e c (set_u_rfm_volume s a)) = s"
proof (intro conjI impI)
  assume "length v = 16"
  then show "Rep_char16 (u_rfm_volume (set_u_rfm_volume (Abs_char16 v) a)) = v"
    by (simp add: u_rfm_volume_set Abs_char16_inverse)
next
  show "u_rfm_volume (set_u_rfm_volume s a) = s"
    by (rule u_rfm_volume_set)
next
  show "u_rfm_connection_id e (set_u_rfm_connection_id e c a) = c"
    by (rule u_rfm_connection_id_set)
next
  assume "k < 2 ^ 32"
  then show "unat (u_rfm_connection_id e (set_u_rfm_connection_id e (of_nat k) a)) = k"
    by (simp add: u_rfm_connection_id_set unat_of_nat)
next
  show "u_rfm_connection_id e (set_u_rfm_volume s (set_u_rfm_connection_id e c a)) = c"
    by (simp add: u_rfm_connection_id_set_volume u_rfm_connection_id_set)
next
  show "u_rfm_volume (set_u_rfm_connection_id e c (set_u_rfm_volume s a)) = s"
    by (simp add: u_rfm_volume_set_connection_id u_rfm_volume_set)
qed

theorem u_rfm_roundtrip_witness:
  "length (replicate 16 (0x76 :: u8)) = 16
   \<and> Rep_char16 (u_rfm_volume (set_u_rfm_volume (Abs_char16 (replicate 16 0x76))
        sockaddr_caif_zeroed)) = replicate 16 0x76
   \<and> (4294967295 :: nat) < 2 ^ 32
   \<and> unat (u_rfm_connection_id Little_endian
        (set_u_rfm_connection_id Little_endian (of_nat 4294967295) sockaddr_caif_zeroed))
      = 4294967295"
  using u_rfm_roundtrip
    [of "replicate 16 0x76" sockaddr_caif_zeroed "u_rfm_volume sockaddr_caif_zeroed"
        Little_endian 0 4294967295]
  by simp

text \<open>
  Claim C5. The named channel priorities have the values CAIF_PRIO_MIN = 1,
  CAIF_PRIO_LOW = 4, CAIF_PRIO_NORMAL = 15, CAIF_PRIO_HIGH = 20 and CAIF_PRIO_MAX = 31,
  and they increase strictly in that order.
\<close>

theorem caif_channel_priority_values:
  "caif_channel_priority_val CAIF_PRIO_MIN = 1
   \<and> caif_channel_priority_val CAIF_PRIO_LOW = 4
   \<and> caif_channel_priority_val CAIF_PRIO_NORMAL = 15
   \<and> caif_channel_priority_val CAIF_PRIO_HIGH = 20
   \<and> caif_channel_priority_val CAIF_PRIO_MAX = 31
   \<and> caif_channel_priority_val CAIF_PRIO_MIN < caif_channel_priority_val CAIF_PRIO_LOW
   \<and> caif_channel_priority_val CAIF_PRIO_LOW < caif_channel_priority_val CAIF_PRIO_NORMAL
   \<and> caif_channel_priority_val CAIF_PRIO_NORMAL < caif_channel_priority_val CAIF_PRIO_HIGH
   \<and> caif_channel_priority_val CAIF_PRIO_HIGH < caif_channel_priority_val CAIF_PRIO_MAX"
  by simp

text \<open>
  Claim C6. A channel priority is accepted if and only if it lies between CAIF_PRIO_MIN
  and CAIF_PRIO_MAX, that is in the closed interval from 1 to 31, and an accepted
  priority is returned as it is. The named values 1, 4, 15, 20 and 31 are accepted, as is
  every value between them; 0 and 32 are rejected with \<open>Priority_out_of_range\<close>.
\<close>

theorem caif_check_priority_range:
  "((\<exists>q. caif_check_priority p = Inr q)
      = (caif_channel_priority_val CAIF_PRIO_MIN \<le> p \<and> p \<le> caif_channel_priority_val CAIF_PRIO_MAX))
   \<and> ((caif_check_priority p = Inr p) = (1 \<le> p \<and> p \<le> 31))
   \<and> ((caif_check_priority p = Inl Priority_out_of_range) = (p < 1 \<or> 31 < p))
   \<and> caif_check_priority 1 = Inr 1
   \<and> caif_check_priority 4 = Inr 4
   \<and> caif_check_priority 15 = Inr 15
   \<and> caif_check_priority 20 = Inr 20
   \<and> caif_check_priority 31 = Inr 31
   \<and> caif_check_priority 0 = Inl Priority_out_of_range
   \<and> caif_check_priority 32 = Inl Priority_out_of_range"
  by (auto simp: caif_check_priority_def)

text \<open>
  Claim C7. The socket options have the values CAIFSO_LINK_SELECT = 127,
  CAIFSO_REQ_PARAM = 128 and CAIFSO_RSP_PARAM = 129, and the three values are pairwise
  distinct: two options with the same value are the same option.
\<close>

theorem caif_socket_opts_values:
  "caif_socket_opts_val CAIFSO_LINK_SELECT = 127
   \<and> caif_socket_opts_val CAIFSO_REQ_PARAM = 128
   \<and> caif_socket_opts_val CAIFSO_RSP_PARAM = 129
   \<and> distinct (map caif_socket_opts_val [CAIFSO_LINK_SELECT, CAIFSO_REQ_PARAM, CAIFSO_RSP_PARAM])
   \<and> ((caif_socket_opts_val x = caif_socket_opts_val y) = (x = y))"
  by (cases x; cases y) simp_all

text \<open>
  Claim C8. On a socket that is not connected, setting the request parameters accepts
  every buffer of 0 to 256 bytes and stores it; a buffer of 257 bytes is rejected on
  every socket, and on an unconnected one every buffer above 256 bytes is rejected as
  \<open>Oversized_buffer\<close>. After any sequence of calls on a fresh socket, the response
  parameters that can be read are at most 256 bytes, and so are the request parameters
  held.
\<close>

theorem caif_param_bound:
  "(\<not> connected s \<and> length buf \<le> 256 \<longrightarrow> caif_set_req_param buf s = Inr (s\<lparr>req_param := buf\<rparr>))
   \<and> (length buf = 257 \<longrightarrow> (\<exists>err. caif_set_req_param buf s = Inl err))
   \<and> (\<not> connected s \<and> 256 < length buf \<longrightarrow> caif_set_req_param buf s = Inl Oversized_buffer)
   \<and> (caif_get_rsp_param (caif_calls cs) = Inr v \<longrightarrow> length v \<le> 256)
   \<and> length (req_param (caif_calls cs)) \<le> 256"
proof (intro conjI impI)
  assume "\<not> connected s \<and> length buf \<le> 256"
  then show "caif_set_req_param buf s = Inr (s\<lparr>req_param := buf\<rparr>)"
    by (simp add: caif_set_req_param_def CAIF_PARAM_MAX_def)
next
  assume "length buf = 257"
  then show "\<exists>err. caif_set_req_param buf s = Inl err"
    by (simp add: caif_set_req_param_def CAIF_PARAM_MAX_def)
next
  assume "\<not> connected s \<and> 256 < length buf"
  then show "caif_set_req_param buf s = Inl Oversized_buffer"
    by (simp add: caif_set_req_param_def CAIF_PARAM_MAX_def)
next
  assume "caif_get_rsp_param (caif_calls cs) = Inr v"
  then have "v = rsp_param (caif_calls cs)"
    by (simp add: caif_get_rsp_param_def split: if_splits)
  then show "length v \<le> 256"
    using caif_calls_bound [of cs] by simp
next
  show "length (req_param (caif_calls cs)) \<le> 256"
    using caif_calls_bound [of cs] by simp
qed

theorem caif_param_bound_witness:
  "\<not> connected caif_sock_init
   \<and> length (replicate 256 (0 :: u8)) \<le> 256
   \<and> caif_set_req_param (replicate 256 0) caif_sock_init
       = Inr (caif_sock_init\<lparr>req_param := replicate 256 0\<rparr>)
   \<and> length (replicate 257 (0 :: u8)) = 257
   \<and> (\<exists>err. caif_set_req_param (replicate 257 0) caif_sock_init = Inl err)
   \<and> caif_set_req_param (replicate 257 0) caif_sock_init = Inl Oversized_buffer
   \<and> caif_get_rsp_param (caif_calls [Set_req_param [1], Connect [7, 7]]) = Inr [7, 7]
   \<and> length [7 :: u8, 7] \<le> 256"
  using caif_param_bound [of caif_sock_init "replicate 256 0" "[Set_req_param [1], Connect [7, 7]]" "[7, 7]"]
    caif_param_bound [of caif_sock_init "replicate 257 0"]
  by (simp add: caif_sock_init_def caif_calls_def caif_get_rsp_param_def
      caif_set_req_param_def caif_connect_def CAIF_PARAM_MAX_def)

text \<open>
  Claim C9. The enumeration of AT subtypes has the single enumerator CAIF_ATTYPE_PLAIN,
  of value 2. Assigning a subtype to the AT arm stores it and reads it back unchanged
  for every byte value: the assignment has no check and no failure, so values other than
  2 are stored like PLAIN, and the address family is left as it was.
\<close>

theorem u_at_type_roundtrip:
  "caif_at_type_val CAIF_ATTYPE_PLAIN = 2
   \<and> (\<forall>x :: caif_at_type. x = CAIF_ATTYPE_PLAIN)
   \<and> u_at_type (set_u_at_type t a) = t
   \<and> family (set_u_at_type t a) = family a
   \<and> u_at_type (set_u_at_type (word_of_int (caif_at_type_val CAIF_ATTYPE_PLAIN)) a) = 2"
proof (intro conjI allI)
  fix x :: caif_at_type
  show "x = CAIF_ATTYPE_PLAIN" by (cases x) simp
next
  show "caif_at_type_val CAIF_ATTYPE_PLAIN = 2" by simp
next
  show "u_at_type (set_u_at_type t a) = t" by (rule u_at_type_set)
next
  show "family (set_u_at_type t a) = family a" by (simp add: set_u_at_type_def)
next
  show "u_at_type (set_u_at_type (word_of_int (caif_at_type_val CAIF_ATTYPE_PLAIN)) a) = 2"
    by (simp add: u_at_type_set)
qed

text \<open>
  Claim C10. The link selector has exactly two enumerators, CAIF_LINK_HIGH_BANDW = 0 and
  CAIF_LINK_LOW_LATENCY = 1. A 4-byte option value of zero bytes is the number 0 in
  either byte order and stands for CAIF_LINK_HIGH_BANDW; a 32-bit value stands for no
  selector exactly when it is neither 0 nor 1, and an integer is the value of a selector
  exactly when it is 0 or 1.
\<close>

theorem caif_link_selector_values:
  "caif_link_selector_val CAIF_LINK_HIGH_BANDW = 0
   \<and> caif_link_selector_val CAIF_LINK_LOW_LATENCY = 1
   \<and> (\<forall>s. s = CAIF_LINK_HIGH_BANDW \<or> s = CAIF_LINK_LOW_LATENCY)
   \<and> caif_link_selector_of (u32_of_bytes e [0, 0, 0, 0]) = Some CAIF_LINK_HIGH_BANDW
   \<and> caif_link_selector_of 0 = Some CAIF_LINK_HIGH_BANDW
   \<and> caif_link_selector_of 1 = Some CAIF_LINK_LOW_LATENCY
   \<and> ((caif_link_selector_of v = None) = (v \<noteq> 0 \<and> v \<noteq> 1))
   \<and> ((\<exists>s. caif_link_selector_val s = i) = (i = 0 \<or> i = 1))"
proof (intro conjI allI)
  fix s show "s = CAIF_LINK_HIGH_BANDW \<or> s = CAIF_LINK_LOW_LATENCY"
    by (cases s) simp_all
next
  show "(\<exists>s. caif_link_selector_val s = i) = (i = 0 \<or> i = 1)"
    by (rule caif_link_selector_val_range)
next
  show "(caif_link_selector_of v = None) = (v \<noteq> 0 \<and> v \<noteq> 1)"
    by (auto simp: caif_link_selector_of_def)
qed (simp_all add: caif_link_selector_of_def u32_of_zero_bytes)

end
